theory Spec2Isabelle
  imports Main
begin

section \<open>JavaScript values\<close>

text \<open>
  Values that arrive as parsed JSON (the webhook body, the gateway's response body).
  Numbers are kept as integers: the code only tests them for truthiness.  A parsed object
  is the list of its properties, each key once.
\<close>

datatype json =
    JUndefined
  | JNull
  | JBool bool
  | JNum int
  | JStr string
  | JArr "json list"
  | JObj "(string \<times> json) list"

text \<open>What a \<^verbatim>\<open>throw\<close> carries: an \<^verbatim>\<open>Error\<close> with its message, or some other value.\<close>

datatype thrown = Err string | NonErr

fun truthy :: "json \<Rightarrow> bool" where
  "truthy JUndefined = False"
| "truthy JNull = False"
| "truthy (JBool b) = b"
| "truthy (JNum n) = (n \<noteq> 0)"
| "truthy (JStr s) = (s \<noteq> [])"
| "truthy (JArr xs) = True"
| "truthy (JObj kvs) = True"

text \<open>\<^verbatim>\<open>a || b\<close>\<close>

definition js_or :: "json \<Rightarrow> json \<Rightarrow> json" where
  "js_or a b = (if truthy a then a else b)"

text \<open>
  \<^verbatim>\<open>v.key\<close> for the keys the code reads (\<^verbatim>\<open>success\<close>, \<^verbatim>\<open>result\<close>, \<^verbatim>\<open>message\<close>): an own
  property of an object, \<^verbatim>\<open>undefined\<close> on every other value that is not null or undefined.
\<close>

fun get_prop :: "json \<Rightarrow> string \<Rightarrow> json" where
  "get_prop (JObj kvs) k = (case map_of kvs k of Some v \<Rightarrow> v | None \<Rightarrow> JUndefined)"
| "get_prop v k = JUndefined"

fun digits_of :: "nat \<Rightarrow> string" where
  "digits_of n =
     (if n < 10 then [char_of (48 + n)]
      else digits_of (n div 10) @ [char_of (48 + n mod 10)])"

declare digits_of.simps [simp del]

fun join_with :: "string \<Rightarrow> string list \<Rightarrow> string" where
  "join_with sep [] = []"
| "join_with sep [x] = x"
| "join_with sep (x # y # ys) = x @ sep @ join_with sep (y # ys)"

text \<open>
  \<^verbatim>\<open>String(v)\<close>, which \<^verbatim>\<open>new Error(v)\<close> applies to its argument.  A number is printed as JavaScript
  prints an integer below \<open>10\<^sup>2\<^sup>1\<close> in magnitude: its decimal digits.
\<close>

fun js_string :: "json \<Rightarrow> string" where
  "js_string JUndefined = ''undefined''"
| "js_string JNull = ''null''"
| "js_string (JBool b) = (if b then ''true'' else ''false'')"
| "js_string (JNum n) = (if n < 0 then ''-'' @ digits_of (nat (- n)) else digits_of (nat n))"
| "js_string (JStr s) = s"
| "js_string (JArr xs) =
     join_with '','' (map (\<lambda>x. if x = JNull \<or> x = JUndefined then [] else js_string x) xs)"
| "js_string (JObj kvs) = ''[object Object]''"

section \<open>Strings and regular expressions\<close>

text \<open>
  JavaScript strings are modelled as \<^typ>\<open>string\<close>, one \<^typ>\<open>char\<close> per code unit in the
  Latin-1 range.
\<close>

text \<open>\<^verbatim>\<open>[0-9]\<close>; \<^verbatim>\<open>\D\<close> is its complement.\<close>

definition is_digit :: "char \<Rightarrow> bool" where
  "is_digit c = (c \<in> set ''0123456789'')"

text \<open>\<^verbatim>\<open>\s\<close>: tab, line feed, vertical tab, form feed, carriage return, space, no-break space.\<close>

definition is_space :: "char \<Rightarrow> bool" where
  "is_space c = (c \<in> set [CHR 0x09, CHR 0x0A, CHR 0x0B, CHR 0x0C, CHR 0x0D, CHR 0x20, CHR 0xA0])"

text \<open>\<^verbatim>\<open>s.replace(/\s/g, '')\<close>\<close>

definition strip_spaces :: "string \<Rightarrow> string" where
  "strip_spaces s = filter (\<lambda>c. \<not> is_space c) s"

text \<open>\<^verbatim>\<open>s.replace(/\D/g, '')\<close>\<close>

definition strip_non_digits :: "string \<Rightarrow> string" where
  "strip_non_digits s = filter is_digit s"

text \<open>\<^verbatim>\<open>s.trim()\<close>\<close>

definition trim :: "string \<Rightarrow> string" where
  "trim s = rev (dropWhile is_space (rev (dropWhile is_space s)))"

text \<open>\<^verbatim>\<open>s.startsWith(p)\<close>\<close>

definition startsWith :: "string \<Rightarrow> string \<Rightarrow> bool" where
  "startsWith s p = (take (length p) s = p)"

text \<open>\<^verbatim>\<open>s.includes(p)\<close>\<close>

fun str_includes :: "string \<Rightarrow> string \<Rightarrow> bool" where
  "str_includes [] p = (p = [])"
| "str_includes (c # cs) p = (startsWith (c # cs) p \<or> str_includes cs p)"

text \<open>\<^verbatim>\<open>s.replace(p, r)\<close> with a string pattern: the first occurrence only.\<close>

fun replace_first :: "string \<Rightarrow> string \<Rightarrow> string \<Rightarrow> string" where
  "replace_first p r [] = (if p = [] then r else [])"
| "replace_first p r (c # cs) =
     (if startsWith (c # cs) p then r @ drop (length p) (c # cs)
      else c # replace_first p r cs)"

text \<open>
  An unanchored regular expression is tried at each position from the left; the first
  position where it matches wins.
\<close>

fun search :: "(string \<Rightarrow> 'a option) \<Rightarrow> string \<Rightarrow> 'a option" where
  "search m [] = m []"
| "search m (c # cs) = (case m (c # cs) of Some r \<Rightarrow> Some r | None \<Rightarrow> search m cs)"

definition strip_prefix :: "string \<Rightarrow> string \<Rightarrow> string option" where
  "strip_prefix p s = (if startsWith s p then Some (drop (length p) s) else None)"

text \<open>A greedy group \<^verbatim>\<open>([^...]+)\<close> at the start of \<open>s\<close>: the longest run, at least one character.\<close>

definition run_of :: "(char \<Rightarrow> bool) \<Rightarrow> string \<Rightarrow> string option" where
  "run_of cls s = (let r = takeWhile cls s in if r = [] then None else Some r)"

text \<open>
  \<^verbatim>\<open>(?:p1|p2|...)([^...]+)\<close> at the start of \<open>s\<close>: the alternatives in order, each followed
  by the group; the result is the group's text.
\<close>

fun alt_at :: "string list \<Rightarrow> (char \<Rightarrow> bool) \<Rightarrow> string \<Rightarrow> string option" where
  "alt_at [] cls s = None"
| "alt_at (p # ps) cls s =
     (case strip_prefix p s of
        None \<Rightarrow> alt_at ps cls s
      | Some r \<Rightarrow> (case run_of cls r of Some x \<Rightarrow> Some x | None \<Rightarrow> alt_at ps cls s))"

text \<open>\<^verbatim>\<open>/confirm=([^&]+)/\<close>, group 1\<close>

definition confirmMatch :: "string \<Rightarrow> string option" where
  "confirmMatch htmlData = search (alt_at [''confirm=''] (\<lambda>c. c \<noteq> CHR ''&'')) htmlData"

text \<open>\<^verbatim>\<open>/id=([^&]+)/\<close>, group 1\<close>

definition fileIdMatch :: "string \<Rightarrow> string option" where
  "fileIdMatch url = search (alt_at [''id=''] (\<lambda>c. c \<noteq> CHR ''&'')) url"

text \<open>
  \<^verbatim>\<open>/filename="?([^"]+)"?/\<close>, group 1: the optional quote is taken when it is there, and
  given back when the group cannot match after it.
\<close>

definition filename_at :: "string \<Rightarrow> string option" where
  "filename_at s =
     (case strip_prefix ''filename='' s of
        None \<Rightarrow> None
      | Some r \<Rightarrow>
          (case strip_prefix [CHR 0x22] r of
             None \<Rightarrow> run_of (\<lambda>c. c \<noteq> CHR 0x22) r
           | Some r' \<Rightarrow>
               (case run_of (\<lambda>c. c \<noteq> CHR 0x22) r' of
                  Some x \<Rightarrow> Some x
                | None \<Rightarrow> run_of (\<lambda>c. c \<noteq> CHR 0x22) r)))"

definition fileNameMatch :: "string \<Rightarrow> string option" where
  "fileNameMatch contentDisposition = search filename_at contentDisposition"

text \<open>\<^verbatim>\<open>/(?:\/d\/|open\?id=|id=)([^\/&]+)/\<close>, group 1\<close>

definition driveIdMatch :: "string \<Rightarrow> string option" where
  "driveIdMatch pdfUrl =
     search (alt_at [''/d/'', ''open?id='', ''id='']
               (\<lambda>c. c \<noteq> CHR ''/'' \<and> c \<noteq> CHR ''&'')) pdfUrl"

text \<open>\<^verbatim>\<open>/^\+?[0-9]{10,15}$/.test(s)\<close>\<close>

definition phoneRegex_test :: "string \<Rightarrow> bool" where
  "phoneRegex_test s =
     (let ds = (if startsWith s ''+'' then drop 1 s else s)
      in 10 \<le> length ds \<and> length ds \<le> 15 \<and> list_all is_digit ds)"

text \<open>
  \<^verbatim>\<open>path.join(dir, name)\<close> and \<^verbatim>\<open>path.basename(p)\<close>; paths are compared as written
  (no normalisation of \<^verbatim>\<open>..\<close> segments).
\<close>

definition path_join :: "string \<Rightarrow> string \<Rightarrow> string" where
  "path_join dir fileName = dir @ ''/'' @ fileName"

definition path_basename :: "string \<Rightarrow> string" where
  "path_basename p = rev (takeWhile (\<lambda>c. c \<noteq> CHR ''/'') (rev p))"

section \<open>The world outside the process\<close>

text \<open>A directory row: \<^verbatim>\<open>row.get(column)\<close>.\<close>

type_synonym row = "string \<Rightarrow> string option"

text \<open>One entry of \<^verbatim>\<open>response.data.files\<close> of the file store's listing.\<close>

record drive_file =
  file_id :: "string option"
  file_name :: "string option"

text \<open>
  The response of \<^verbatim>\<open>axios.get\<close> with \<^verbatim>\<open>responseType: 'stream'\<close>: the headers (names in lower
  case) and the text of the body, which the stream delivers in full.
\<close>

record response =
  headers :: "string \<Rightarrow> string option"
  data :: string

text \<open>
  How the write stream of \<^verbatim>\<open>fs.createWriteStream\<close> ends: \<^verbatim>\<open>finish\<close>; an \<^verbatim>\<open>error\<close> event
  before the file exists (it could not be opened); an \<^verbatim>\<open>error\<close> event after the file was
  created (a write failed).
\<close>

datatype write_outcome = Finish | OpenError thrown | WriteError thrown

text \<open>
  What is posted to the gateway.  \<open>PostForm url path fileName phone caption\<close> is the multipart
  form with the file; \<open>PostJson url phone message\<close> is the text message.  The authorisation
  header and the timeout belong to the transport, whose outcome is \<open>axios_post\<close>.
\<close>

datatype request =
    PostForm string string string string string
  | PostJson string string string

datatype event = Get string | Post request

record world =
  env :: "string \<Rightarrow> string option"
  dirname :: string
  loadInfo :: "thrown + (thrown + row list) list"
  files_list :: "string \<Rightarrow> thrown + drive_file list option"
  files_get :: "string \<Rightarrow> thrown + string option"
  axios_get :: "string \<Rightarrow> thrown + response"
  createWriteStream :: "string \<Rightarrow> write_outcome"
  axios_post :: "request \<Rightarrow> thrown + json"

text \<open>
  \<open>env\<close> is \<^verbatim>\<open>process.env\<close>, \<open>dirname\<close> is \<^verbatim>\<open>__dirname\<close>.  \<open>loadInfo\<close> is the spreadsheet as
  \<^verbatim>\<open>doc.loadInfo()\<close> finds it: it throws, or gives the sheets in index order, each of which
  throws on \<^verbatim>\<open>loadCells\<close>/\<^verbatim>\<open>getRows\<close> or gives its rows.  \<open>files_list\<close> and \<open>files_get\<close> are
  \<^verbatim>\<open>drive.files.list\<close> (by query) and \<^verbatim>\<open>drive.files.get\<close> (by file id, giving
  \<^verbatim>\<open>webContentLink\<close>).  \<open>axios_get\<close> throws on a transport failure or a status of 400 and above.
\<close>

text \<open>The files on local storage, and the requests sent so far, oldest first.\<close>

record state =
  files :: "string set"
  trace :: "event list"

text \<open>\<^verbatim>\<open>!process.env.X\<close> is false\<close>

definition env_set :: "world \<Rightarrow> string \<Rightarrow> bool" where
  "env_set w k = (case env w k of None \<Rightarrow> False | Some v \<Rightarrow> v \<noteq> [])"

text \<open>\<^verbatim>\<open>${process.env.X}\<close> inside a template string\<close>

definition env_val :: "world \<Rightarrow> string \<Rightarrow> string" where
  "env_val w k = (case env w k of None \<Rightarrow> ''undefined'' | Some v \<Rightarrow> v)"

section \<open>googleSheets.ts\<close>

definition initGoogleSheets :: "world \<Rightarrow> thrown + (thrown + row list) list" where
  "initGoogleSheets w =
     (if \<not> env_set w ''GOOGLE_SERVICE_ACCOUNT_EMAIL'' \<or> \<not> env_set w ''GOOGLE_PRIVATE_KEY''
         \<or> \<not> env_set w ''GOOGLE_SHEET_ID''
      then Inl (Err ''Google Sheets credentials not properly configured'')
      else loadInfo w)"

text \<open>\<^verbatim>\<open>row.get('PhoneNumber') || ''\<close>\<close>

definition row_phone :: "row \<Rightarrow> string" where
  "row_phone r = (case r ''PhoneNumber'' of None \<Rightarrow> [] | Some v \<Rightarrow> v)"

definition findPhoneNumberInSheet :: "world \<Rightarrow> string \<Rightarrow> thrown + row option" where
  "findPhoneNumberInSheet w phoneNumber =
     (case initGoogleSheets w of
        Inl e \<Rightarrow> Inl e
      | Inr sheetsByIndex \<Rightarrow>
          (case sheetsByIndex of
             [] \<Rightarrow> Inl (Err ''No sheet found in the Google Spreadsheet'')
           | sheet # _ \<Rightarrow>
               (case sheet of
                  Inl e \<Rightarrow> Inl e
                | Inr rows \<Rightarrow>
                    (let normalizedPhoneNumber = strip_non_digits phoneNumber
                     in Inr (find (\<lambda>r. strip_non_digits (row_phone r) = normalizedPhoneNumber)
                               rows)))))"

definition getEnrollmentNumber :: "row \<Rightarrow> string option" where
  "getEnrollmentNumber matchedRow =
     (case matchedRow ''enrollmentNumber'' of
        None \<Rightarrow> None
      | Some enrollmentNumber \<Rightarrow> (if enrollmentNumber = [] then None else Some enrollmentNumber))"

section \<open>googleDrive.ts\<close>

definition initGoogleDrive :: "world \<Rightarrow> thrown + unit" where
  "initGoogleDrive w =
     (if \<not> env_set w ''GOOGLE_SERVICE_ACCOUNT_EMAIL'' \<or> \<not> env_set w ''GOOGLE_PRIVATE_KEY''
      then Inl (Err ''Google Drive credentials not properly configured'')
      else Inr ())"

definition drive_query :: "world \<Rightarrow> string \<Rightarrow> string" where
  "drive_query w enrollmentNumber =
     [CHR 0x27] @ env_val w ''GOOGLE_DRIVE_FOLDER_ID'' @ [CHR 0x27]
       @ '' in parents and name contains '' @ [CHR 0x27] @ enrollmentNumber @ [CHR 0x27]
       @ '' and mimeType='application/pdf' and trashed=false''"

definition findPdfByEnrollmentNumber :: "world \<Rightarrow> string \<Rightarrow> thrown + string option" where
  "findPdfByEnrollmentNumber w enrollmentNumber =
     (if \<not> env_set w ''GOOGLE_DRIVE_FOLDER_ID''
      then Inl (Err ''Google Drive folder ID not configured'')
      else
        (case initGoogleDrive w of
           Inl e \<Rightarrow> Inl e
         | Inr drive \<Rightarrow>
             (case files_list w (drive_query w enrollmentNumber) of
                Inl e \<Rightarrow> Inl e
              | Inr None \<Rightarrow> Inr None
              | Inr (Some []) \<Rightarrow> Inr None
              | Inr (Some (file # _)) \<Rightarrow>
                  (case file_id file of
                     None \<Rightarrow> Inr None
                   | Some fid \<Rightarrow>
                       (if fid = [] then Inr None
                        else
                          (case files_get w fid of
                             Inl e \<Rightarrow> Inl e
                           | Inr None \<Rightarrow> Inr None
                           | Inr (Some webContentLink) \<Rightarrow>
                               (if webContentLink = [] then Inr None
                                else Inr (Some (replace_first ''&export=download'' []
                                                  webContentLink)))))))))"

section \<open>watiApi.ts\<close>

text \<open>\<^verbatim>\<open>axios.get(url, ...)\<close>: the request is sent, then the response arrives or the call throws.\<close>

definition http_get :: "world \<Rightarrow> string \<Rightarrow> state \<Rightarrow> (thrown + response) \<times> state" where
  "http_get w url s = (axios_get w url, s\<lparr>trace := trace s @ [Get url]\<rparr>)"

text \<open>
  \<^verbatim>\<open>response.headers['content-type'] && response.headers['content-type'].includes('text/html')\<close>
\<close>

definition is_html :: "response \<Rightarrow> bool" where
  "is_html response =
     (case headers response ''content-type'' of
        None \<Rightarrow> False
      | Some contentType \<Rightarrow> contentType \<noteq> [] \<and> str_includes contentType ''text/html'')"

text \<open>The file name: lines 53 to 67 of \<^verbatim>\<open>downloadFile\<close>.\<close>

definition resolve_file_name :: "response \<Rightarrow> string \<Rightarrow> string" where
  "resolve_file_name response url =
     (let fileName =
            (case headers response ''content-disposition'' of
               None \<Rightarrow> []
             | Some contentDisposition \<Rightarrow>
                 (if contentDisposition = [] then []
                  else (case fileNameMatch contentDisposition of
                          None \<Rightarrow> []
                        | Some n \<Rightarrow> n)))
      in if fileName = []
         then (case fileIdMatch url of
                 Some fileId \<Rightarrow> fileId @ ''.pdf''
               | None \<Rightarrow> ''downloaded.pdf'')
         else fileName)"

text \<open>
  Piping the response into \<^verbatim>\<open>fs.createWriteStream(filePath)\<close> and awaiting \<^verbatim>\<open>finish\<close> or
  \<^verbatim>\<open>error\<close>.  The handler of \<^verbatim>\<open>error\<close> closes the writer and rejects; it removes nothing.
  Only events of the writer settle the promise: a run whose source stream fails while it is
  piped never returns, and is not among the outcomes.
\<close>

definition write_to_disk :: "world \<Rightarrow> string \<Rightarrow> state \<Rightarrow> (thrown + unit) \<times> state" where
  "write_to_disk w filePath s =
     (case createWriteStream w filePath of
        Finish \<Rightarrow> (Inr (), s\<lparr>files := insert filePath (files s)\<rparr>)
      | OpenError e \<Rightarrow> (Inl e, s)
      | WriteError e \<Rightarrow> (Inl e, s\<lparr>files := insert filePath (files s)\<rparr>))"

definition downloadFile :: "world \<Rightarrow> string \<Rightarrow> state \<Rightarrow> (thrown + string) \<times> state" where
  "downloadFile w url s =
     (case http_get w url s of
        (Inl e, s1) \<Rightarrow> (Inl e, s1)
      | (Inr response, s1) \<Rightarrow>
          (case (if is_html response
                 then (case confirmMatch (data response) of
                         Some confirmToken \<Rightarrow>
                           http_get w (url @ ''&confirm='' @ confirmToken) s1
                       | None \<Rightarrow>
                           (Inl (Err ''Failed to extract confirmation token from HTML response.''),
                            s1))
                 else (Inr response, s1)) of
             (Inl e, s2) \<Rightarrow> (Inl e, s2)
           | (Inr response, s2) \<Rightarrow>
               (let filePath = path_join (dirname w) (resolve_file_name response url)
                in case write_to_disk w filePath s2 of
                     (Inl e, s3) \<Rightarrow> (Inl e, s3)
                   | (Inr _, s3) \<Rightarrow> (Inr filePath, s3))))"

text \<open>The rewriting of \<^verbatim>\<open>pdfUrl\<close>: lines 113 to 129 of \<^verbatim>\<open>sendPdfViaWati\<close>.\<close>

definition process_pdfUrl :: "string \<Rightarrow> string" where
  "process_pdfUrl pdfUrl =
     (if startsWith pdfUrl ''http''
      then (if str_includes pdfUrl ''drive.google.com''
            then (case driveIdMatch pdfUrl of
                    Some fileId \<Rightarrow> ''https://drive.google.com/uc?export=download&id='' @ fileId
                  | None \<Rightarrow> pdfUrl)
            else pdfUrl)
      else ''https://drive.google.com/uc?export=download&id='' @ pdfUrl)"

text \<open>
  \<^verbatim>\<open>response.data && (response.data.success === true || response.data.result === true)\<close>
\<close>

definition asserts_success :: "json \<Rightarrow> bool" where
  "asserts_success d =
     (truthy d \<and> (get_prop d ''success'' = JBool True \<or> get_prop d ''result'' = JBool True))"

text \<open>
  The \<^verbatim>\<open>finally\<close> block of \<^verbatim>\<open>sendPdfViaWati\<close>, given the value of \<^verbatim>\<open>downloadedFilePath\<close>
  (\<open>None\<close> while it is still undefined).
\<close>

definition cleanup :: "string option \<Rightarrow> state \<Rightarrow> state" where
  "cleanup downloadedFilePath s =
     (case downloadedFilePath of
        None \<Rightarrow> s
      | Some p \<Rightarrow> (if p \<noteq> [] \<and> p \<in> files s then s\<lparr>files := files s - {p}\<rparr> else s))"

text \<open>
  The \<^verbatim>\<open>try\<close> block of \<^verbatim>\<open>sendPdfViaWati\<close>.  Beside its outcome it gives the value of
  \<^verbatim>\<open>downloadedFilePath\<close> at its exit: the variable is assigned only when \<^verbatim>\<open>downloadFile\<close> has
  returned.  The \<^verbatim>\<open>catch\<close> block logs and rethrows.
\<close>

definition sendPdf_try ::
  "world \<Rightarrow> string \<Rightarrow> string \<Rightarrow> string \<Rightarrow> state \<Rightarrow> ((thrown + json) \<times> string option) \<times> state"
where
  "sendPdf_try w phoneNumber name pdfUrl s =
     (if \<not> env_set w ''WATI_BASE_URL'' \<or> \<not> env_set w ''WATI_BEARER_TOKEN''
      then ((Inl (Err ''WATI API credentials are not properly configured''), None), s)
      else if pdfUrl = []
      then ((Inl (Err ''PDF URL cannot be null or undefined''), None), s)
      else
        (case downloadFile w (process_pdfUrl pdfUrl) s of
           (Inl e, s1) \<Rightarrow> ((Inl e, None), s1)
         | (Inr downloadedFilePath, s1) \<Rightarrow>
             (let fileName = path_basename downloadedFilePath;
                  url = env_val w ''WATI_BASE_URL'' @ ''/api/v1/sendSessionFile/'' @ phoneNumber;
                  form = PostForm url downloadedFilePath fileName phoneNumber
                           (''Hello '' @ name @ '', here's your requested document.'');
                  s2 = s1\<lparr>trace := trace s1 @ [Post form]\<rparr>
              in case axios_post w form of
                   Inl e \<Rightarrow> ((Inl e, Some downloadedFilePath), s2)
                 | Inr d \<Rightarrow>
                     (if asserts_success d then ((Inr d, Some downloadedFilePath), s2)
                      else ((Inl (Err ''Failed to send PDF via WATI API''),
                             Some downloadedFilePath), s2)))))"

definition sendPdfViaWati ::
  "world \<Rightarrow> string \<Rightarrow> string \<Rightarrow> string \<Rightarrow> state \<Rightarrow> (thrown + json) \<times> state"
where
  "sendPdfViaWati w phoneNumber name pdfUrl s =
     (case sendPdf_try w phoneNumber name pdfUrl s of
        ((r, downloadedFilePath), s1) \<Rightarrow> (r, cleanup downloadedFilePath s1))"

text \<open>
  \<^verbatim>\<open>sendErrorMessageViaWati\<close>.  When the response does not assert success, the \<^verbatim>\<open>else\<close> branch
  reads \<^verbatim>\<open>response.data.message\<close>, which is itself a TypeError on null and undefined.
\<close>

definition sendErrorMessageViaWati ::
  "world \<Rightarrow> string \<Rightarrow> string \<Rightarrow> state \<Rightarrow> (thrown + json) \<times> state"
where
  "sendErrorMessageViaWati w phoneNumber message s =
     (if \<not> env_set w ''WATI_BASE_URL'' \<or> \<not> env_set w ''WATI_BEARER_TOKEN''
      then (Inl (Err ''WATI API credentials are not properly configured''), s)
      else
        (let url = env_val w ''WATI_BASE_URL'' @ ''/api/v1/sendSessionMessage/'' @ phoneNumber;
             req = PostJson url phoneNumber message;
             s1 = s\<lparr>trace := trace s @ [Post req]\<rparr>
         in case axios_post w req of
              Inl e \<Rightarrow> (Inl e, s1)
            | Inr d \<Rightarrow>
                (if asserts_success d then (Inr d, s1)
                 else if d = JNull
                 then (Inl (Err ''Cannot read properties of null (reading 'message')''), s1)
                 else if d = JUndefined
                 then (Inl (Err ''Cannot read properties of undefined (reading 'message')''), s1)
                 else (Inl (Err (js_string (js_or (get_prop d ''message'')
                                              (JStr ''Unknown error'')))), s1))))"

section \<open>webhook.ts\<close>

text \<open>The fields the handler reads from \<^verbatim>\<open>req.body\<close>; an absent key is \<open>JUndefined\<close>.\<close>

record req_body =
  req_name :: json
  req_phoneNumber :: json
  req_phone_number :: json

text \<open>\<^verbatim>\<open>res.status(...).json({success, message, data, error})\<close>\<close>

record reply =
  res_status :: nat
  res_success :: bool
  res_message :: string
  res_data :: "json option"
  res_error :: "string option"

text \<open>\<^verbatim>\<open>error instanceof Error ? error.message : 'Unknown error'\<close>\<close>

definition error_text :: "thrown \<Rightarrow> string" where
  "error_text e = (case e of Err m \<Rightarrow> m | NonErr \<Rightarrow> ''Unknown error'')"

text \<open>The two texts sent to the requester (\<^verbatim>\<open>const errorMessage\<close>, twice).\<close>

definition errorMessage_phone :: string where
  "errorMessage_phone =
     ''Invalid phone number. Please ensure you've registered with the correct number.''"

definition errorMessage_document :: string where
  "errorMessage_document =
     ''We couldn't find your document. Please contact support for assistance.''"

text \<open>
  The \<^verbatim>\<open>try\<close> block of the handler of \<^verbatim>\<open>POST /receive\<close>, in two parts.  \<open>pipeline\<close> is the
  part after the inputs are sanitized (from \<^verbatim>\<open>findPhoneNumberInSheet\<close> to the reply of
  status 200); \<open>receive_try\<close> is the part before it, which validates and sanitizes.
  \<^verbatim>\<open>!pdfUrl\<close> holds for null and for the empty string; past that test \<open>pdfUrl\<close> is \<open>Some\<close> link.
\<close>

definition pipeline :: "world \<Rightarrow> string \<Rightarrow> string \<Rightarrow> state \<Rightarrow> (thrown + reply) \<times> state" where
  "pipeline w sanitizedName sanitizedPhone s =
     (case findPhoneNumberInSheet w sanitizedPhone of
        Inl e \<Rightarrow> (Inl e, s)
      | Inr None \<Rightarrow>
          (case sendErrorMessageViaWati w sanitizedPhone errorMessage_phone s of
             (Inl e, s1) \<Rightarrow> (Inl e, s1)
           | (Inr watiResponse, s1) \<Rightarrow>
               (Inr \<lparr>res_status = 404, res_success = False,
                      res_message = ''Phone number not found in the database'',
                      res_data = Some watiResponse, res_error = None\<rparr>, s1))
      | Inr (Some matchedRow) \<Rightarrow>
          (case getEnrollmentNumber matchedRow of
             None \<Rightarrow>
               (Inr \<lparr>res_status = 404, res_success = False,
                      res_message = ''Enrollment number not found for the matched phone number'',
                      res_data = None, res_error = None\<rparr>, s)
           | Some enrollmentNumber \<Rightarrow>
               (case findPdfByEnrollmentNumber w enrollmentNumber of
                  Inl e \<Rightarrow> (Inl e, s)
                | Inr pdfUrl \<Rightarrow>
                    (if pdfUrl = None \<or> pdfUrl = Some []
                     then
                       (case sendErrorMessageViaWati w sanitizedPhone errorMessage_document s of
                          (Inl e, s1) \<Rightarrow> (Inl e, s1)
                        | (Inr watiResponse, s1) \<Rightarrow>
                            (Inr \<lparr>res_status = 404, res_success = False,
                                   res_message = ''PDF not found for the enrollment number'',
                                   res_data = Some watiResponse, res_error = None\<rparr>, s1))
                     else
                       (case sendPdfViaWati w sanitizedPhone sanitizedName (the pdfUrl) s of
                          (Inl e, s1) \<Rightarrow> (Inl e, s1)
                        | (Inr watiResponse, s1) \<Rightarrow>
                            (Inr \<lparr>res_status = 200, res_success = True,
                                   res_message = ''PDF sent successfully'',
                                   res_data = Some watiResponse, res_error = None\<rparr>, s1))))))"

text \<open>\<^verbatim>\<open>name.trim().replace(/[<>]/g, '')\<close>\<close>

definition sanitize_name :: "string \<Rightarrow> string" where
  "sanitize_name name = filter (\<lambda>c. c \<noteq> CHR ''<'' \<and> c \<noteq> CHR ''>'') (trim name)"

text \<open>
  A truthy value that is not a string has no \<^verbatim>\<open>replace\<close> or \<^verbatim>\<open>trim\<close> method: the call is a
  TypeError, caught like every other error.
\<close>

definition receive_try :: "world \<Rightarrow> req_body \<Rightarrow> state \<Rightarrow> (thrown + reply) \<times> state" where
  "receive_try w body s =
     (let name = req_name body;
          userPhoneNumber = js_or (req_phoneNumber body) (req_phone_number body)
      in if \<not> truthy name \<or> \<not> truthy userPhoneNumber
         then (Inr \<lparr>res_status = 400, res_success = False,
                     res_message = ''Name and phone number are required'',
                     res_data = None, res_error = None\<rparr>, s)
         else
           (case userPhoneNumber of
              JStr phone \<Rightarrow>
                (if \<not> phoneRegex_test (strip_spaces phone)
                 then (Inr \<lparr>res_status = 400, res_success = False,
                             res_message = ''Invalid phone number format'',
                             res_data = None, res_error = None\<rparr>, s)
                 else
                   (case name of
                      JStr nm \<Rightarrow> pipeline w (sanitize_name nm) (strip_spaces phone) s
                    | _ \<Rightarrow> (Inl (Err ''name.trim is not a function''), s)))
            | _ \<Rightarrow> (Inl (Err ''userPhoneNumber.replace is not a function''), s)))"

text \<open>The handler of \<^verbatim>\<open>POST /receive\<close>: the \<^verbatim>\<open>try\<close> block, and the \<^verbatim>\<open>catch\<close> block's reply.\<close>

definition receive :: "world \<Rightarrow> req_body \<Rightarrow> state \<Rightarrow> reply \<times> state" where
  "receive w body s =
     (case receive_try w body s of
        (Inr r, s1) \<Rightarrow> (r, s1)
      | (Inl e, s1) \<Rightarrow>
          (\<lparr>res_status = 500, res_success = False,
            res_message = ''Error processing webhook'',
            res_data = None, res_error = Some (error_text e)\<rparr>, s1))"

section \<open>Concrete worlds\<close>

definition env_ok :: "string \<Rightarrow> string option" where
  "env_ok = map_of
     [(''GOOGLE_SERVICE_ACCOUNT_EMAIL'', ''svc@example.com''),
      (''GOOGLE_PRIVATE_KEY'', ''key''),
      (''GOOGLE_SHEET_ID'', ''sheet''),
      (''GOOGLE_DRIVE_FOLDER_ID'', ''folder''),
      (''WATI_BASE_URL'', ''https://wati.example''),
      (''WATI_BEARER_TOKEN'', ''token'')]"

text \<open>A directory row for Jane, and one whose enrollment column is empty.\<close>

definition row_jane :: row where
  "row_jane = map_of [(''PhoneNumber'', ''+1 (202) 555-0178''), (''enrollmentNumber'', ''EN100'')]"

definition row_no_key :: row where
  "row_no_key = map_of [(''PhoneNumber'', ''+1 (202) 555-0178''), (''enrollmentNumber'', [])]"

definition pdf_response :: response where
  "pdf_response =
     \<lparr>headers = map_of [(''content-type'', ''application/pdf''),
                        (''content-disposition'',
                         ''attachment; filename='' @ [CHR 0x22] @ ''EN100.pdf'' @ [CHR 0x22])],
      data = ''%PDF-1.4''\<rparr>"

text \<open>
  A world where every collaborator answers: the directory holds Jane's row, the file store
  has one document, the download is a PDF and the gateway accepts.
\<close>

definition world_ok :: world where
  "world_ok =
     \<lparr>env = env_ok,
      dirname = ''/app/services'',
      loadInfo = Inr [Inr [row_jane]],
      files_list = (\<lambda>q. Inr (Some [\<lparr>file_id = Some ''F1'', file_name = Some ''EN100.pdf''\<rparr>])),
      files_get = (\<lambda>fid. Inr (Some ''https://drive.google.com/uc?id=F1&export=download'')),
      axios_get = (\<lambda>url. Inr pdf_response),
      createWriteStream = (\<lambda>p. Finish),
      axios_post = (\<lambda>r. Inr (JObj [(''result'', JBool True)]))\<rparr>"

definition state0 :: state where
  "state0 = \<lparr>files = {}, trace = []\<rparr>"

definition body_jane :: "string \<Rightarrow> req_body" where
  "body_jane phone =
     \<lparr>req_name = JStr ''Jane'', req_phoneNumber = JStr phone, req_phone_number = JUndefined\<rparr>"

definition html_response :: "string \<Rightarrow> response" where
  "html_response body =
     \<lparr>headers = map_of [(''content-type'', ''text/html; charset=utf-8'')], data = body\<rparr>"

definition plain_response :: response where
  "plain_response = \<lparr>headers = map_of [(''content-type'', ''application/pdf'')], data = ''%PDF-1.4''\<rparr>"

text \<open>The directory has no sheet at all.\<close>

definition world_no_sheet :: world where
  "world_no_sheet = world_ok\<lparr>loadInfo := Inr []\<rparr>"

text \<open>The matched row has an empty enrollment column.\<close>

definition world_no_key :: world where
  "world_no_key = world_ok\<lparr>loadInfo := Inr [Inr [row_no_key]]\<rparr>"

text \<open>
  The file store answers every download, also the retried one, with the confirmation page.
\<close>

definition world_confirm :: world where
  "world_confirm =
     world_ok\<lparr>axios_get :=
       (\<lambda>url. Inr (html_response ''<a href=/uc?export=download&confirm=XYZ123&id=F1>''))\<rparr>"

text \<open>The file store answers with a page that holds no token.\<close>

definition world_no_token :: world where
  "world_no_token = world_ok\<lparr>axios_get := (\<lambda>url. Inr (html_response ''<html>quota</html>''))\<rparr>"

text \<open>The disk fills up while the document is written.\<close>

definition world_disk_full :: world where
  "world_disk_full =
     world_ok\<lparr>createWriteStream := (\<lambda>p. WriteError (Err ''ENOSPC: no space left on device, write''))\<rparr>"

text \<open>The gateway answers, but its body does not assert success.\<close>

definition world_rejecting :: world where
  "world_rejecting =
     world_ok\<lparr>axios_post :=
       (\<lambda>r. Inr (JObj [(''result'', JBool False), (''info'', JStr ''Invalid contact'')]))\<rparr>"

text \<open>A request whose \<^verbatim>\<open>phoneNumber\<close> is the empty string and whose \<^verbatim>\<open>phone_number\<close> is valid.\<close>

definition body_empty_key :: req_body where
  "body_empty_key =
     \<lparr>req_name = JStr ''Jane'', req_phoneNumber = JStr [],
      req_phone_number = JStr ''12025550178''\<rparr>"

text \<open>
  A request with both keys: \<^verbatim>\<open>phoneNumber\<close> is valid, \<^verbatim>\<open>phone_number\<close> is too short to be valid.
\<close>

definition body_both_keys :: req_body where
  "body_both_keys =
     \<lparr>req_name = JStr ''Jane'', req_phoneNumber = JStr ''+12025550178'',
      req_phone_number = JStr ''12345''\<rparr>"

section \<open>Notions used in the statements\<close>

text \<open>The two kinds of request to the gateway, and how many of them a list of events holds.\<close>

fun is_file_post :: "event \<Rightarrow> bool" where
  "is_file_post (Post (PostForm url path fileName phone caption)) = True"
| "is_file_post e = False"

fun is_message_post :: "event \<Rightarrow> bool" where
  "is_message_post (Post (PostJson url phone message)) = True"
| "is_message_post e = False"

definition dispatches :: "event list \<Rightarrow> nat" where
  "dispatches evs = length (filter is_file_post evs) + length (filter is_message_post evs)"

text \<open>The file name that the regular expression extracts from the content-disposition header.\<close>

definition disposition_name :: "response \<Rightarrow> string option" where
  "disposition_name response =
     (case headers response ''content-disposition'' of
        None \<Rightarrow> None
      | Some contentDisposition \<Rightarrow> fileNameMatch contentDisposition)"

text \<open>The unfolding rules that evaluate the model on a concrete world.\<close>

lemmas model_defs =
  js_or_def is_digit_def is_space_def strip_spaces_def strip_non_digits_def trim_def
  startsWith_def strip_prefix_def run_of_def confirmMatch_def fileIdMatch_def filename_at_def
  fileNameMatch_def driveIdMatch_def phoneRegex_test_def path_join_def path_basename_def
  env_set_def env_val_def initGoogleSheets_def row_phone_def findPhoneNumberInSheet_def
  getEnrollmentNumber_def initGoogleDrive_def drive_query_def findPdfByEnrollmentNumber_def
  http_get_def is_html_def resolve_file_name_def write_to_disk_def downloadFile_def
  process_pdfUrl_def asserts_success_def cleanup_def sendPdf_try_def sendPdfViaWati_def
  sendErrorMessageViaWati_def error_text_def pipeline_def sanitize_name_def receive_try_def
  receive_def Let_def

lemmas world_defs =
  env_ok_def row_jane_def row_no_key_def pdf_response_def world_ok_def state0_def body_jane_def
  html_response_def plain_response_def world_no_sheet_def world_no_key_def world_confirm_def
  world_no_token_def world_disk_full_def world_rejecting_def body_empty_key_def
  body_both_keys_def

section \<open>Regular expressions: what a match says about the text\<close>

lemma startsWith_append: "startsWith s p \<Longrightarrow> s = p @ drop (length p) s"
  unfolding startsWith_def by (metis append_take_drop_id)

lemma run_of_not_Nil: "run_of cls s = Some x \<Longrightarrow> x \<noteq> []"
  by (auto simp: run_of_def Let_def split: if_splits)

lemma search_Some: "search m s = Some r \<Longrightarrow> \<exists>pre t. s = pre @ t \<and> m t = Some r"
proof (induction s)
  case Nil
  then show ?case by simp
next
  case (Cons c cs)
  show ?case
  proof (cases "m (c # cs)")
    case None
    with Cons obtain pre t where "cs = pre @ t" "m t = Some r" by auto
    then have "c # cs = (c # pre) @ t \<and> m t = Some r" by simp
    then show ?thesis by blast
  next
    case (Some x)
    with Cons.prems have "c # cs = [] @ (c # cs) \<and> m (c # cs) = Some r" by simp
    then show ?thesis by blast
  qed
qed

lemma alt_at_single:
  assumes "alt_at [p] cls t = Some x"
  shows "\<exists>post. t = p @ x @ post \<and> x \<noteq> [] \<and> (\<forall>c \<in> set x. cls c)
                \<and> (post = [] \<or> \<not> cls (hd post))"
proof -
  from assms have sw: "startsWith t p" and x: "run_of cls (drop (length p) t) = Some x"
    by (auto simp: strip_prefix_def split: if_splits option.splits)
  from x have tw: "x = takeWhile cls (drop (length p) t)" and ne: "x \<noteq> []"
    by (auto simp: run_of_def Let_def split: if_splits)
  let ?post = "dropWhile cls (drop (length p) t)"
  have "t = p @ x @ ?post"
    using startsWith_append [OF sw] tw by simp
  moreover have "\<forall>c \<in> set x. cls c"
    unfolding tw by (auto dest: set_takeWhileD)
  moreover have "?post = [] \<or> \<not> cls (hd ?post)"
    by (metis hd_dropWhile)
  ultimately show ?thesis using ne by blast
qed

text \<open>
  A match of \<^verbatim>\<open>/confirm=([^&]+)/\<close>: the text holds \<^verbatim>\<open>confirm=\<close>, then the token (not empty, free
  of \<^verbatim>\<open>&\<close>), then its end or a \<^verbatim>\<open>&\<close>.
\<close>

lemma confirmMatch_Some:
  assumes "confirmMatch htmlData = Some token"
  shows "\<exists>pre post. htmlData = pre @ ''confirm='' @ token @ post \<and> token \<noteq> []
           \<and> CHR ''&'' \<notin> set token \<and> (post = [] \<or> hd post = CHR ''&'')"
proof -
  from assms obtain pre t where s: "htmlData = pre @ t"
    and m: "alt_at [''confirm=''] (\<lambda>c. c \<noteq> CHR ''&'') t = Some token"
    unfolding confirmMatch_def by (blast dest: search_Some)
  from alt_at_single [OF m] obtain post where
    "t = ''confirm='' @ token @ post" "token \<noteq> []" "\<forall>c \<in> set token. c \<noteq> CHR ''&''"
    "post = [] \<or> hd post = CHR ''&''"
    by auto
  with s show ?thesis by blast
qed

lemma search_None: "search m (pre @ t) = None \<Longrightarrow> m t = None"
  by (induction pre) (auto split: option.splits, (cases t; simp split: option.splits))

text \<open>No match of \<^verbatim>\<open>/confirm=([^&]+)/\<close>: every \<^verbatim>\<open>confirm=\<close> in the text is followed by \<^verbatim>\<open>&\<close> or by
  nothing.\<close>

lemma confirmMatch_None:
  assumes "confirmMatch htmlData = None" and "htmlData = pre @ ''confirm='' @ post"
  shows "post = [] \<or> hd post = CHR ''&''"
proof -
  from assms have "alt_at [''confirm=''] (\<lambda>c. c \<noteq> CHR ''&'') (''confirm='' @ post) = None"
    unfolding confirmMatch_def by (blast dest: search_None)
  then show ?thesis
    by (cases post) (auto simp: strip_prefix_def startsWith_def run_of_def Let_def
                          split: option.splits if_splits)
qed

lemma filename_at_not_Nil: "filename_at s = Some x \<Longrightarrow> x \<noteq> []"
  by (auto simp: filename_at_def dest: run_of_not_Nil split: option.splits)

lemma fileNameMatch_not_Nil: "fileNameMatch cd = Some n \<Longrightarrow> n \<noteq> []"
  unfolding fileNameMatch_def by (blast dest: search_Some filename_at_not_Nil)

lemma fileNameMatch_Nil: "fileNameMatch [] = None"
  by (simp add: fileNameMatch_def filename_at_def strip_prefix_def startsWith_def)

section \<open>The download\<close>

text \<open>
  Claim C9.  The name of the downloaded file is chosen by strict priority: the name that
  the content-disposition header of the response yields, when it yields one; else the
  \<^verbatim>\<open>id=\<close> value of the requested URL followed by \<^verbatim>\<open>.pdf\<close>; else \<^verbatim>\<open>downloaded.pdf\<close>.
\<close>

theorem file_name_priority:
  "resolve_file_name response url =
     (case disposition_name response of
        Some n \<Rightarrow> n
      | None \<Rightarrow>
          (case fileIdMatch url of
             Some fileId \<Rightarrow> fileId @ ''.pdf''
           | None \<Rightarrow> ''downloaded.pdf''))"
  by (auto simp: resolve_file_name_def disposition_name_def fileNameMatch_Nil Let_def
           dest: fileNameMatch_not_Nil split: option.splits)

theorem file_name_priority_witness:
  "resolve_file_name pdf_response ''https://drive.google.com/uc?export=download&id=F1''
     = ''EN100.pdf''
   \<and> resolve_file_name plain_response ''https://drive.google.com/uc?export=download&id=F1''
     = ''F1.pdf''
   \<and> resolve_file_name plain_response ''https://files.example/report'' = ''downloaded.pdf''"
  using file_name_priority [of pdf_response "''https://drive.google.com/uc?export=download&id=F1''"]
    file_name_priority [of plain_response "''https://drive.google.com/uc?export=download&id=F1''"]
    file_name_priority [of plain_response "''https://files.example/report''"]
  by (simp add: disposition_name_def model_defs world_defs)

text \<open>
  Claim C5.  When the first response is an HTML page whose text matches
  \<^verbatim>\<open>confirm=<token>\<close>, \<^verbatim>\<open>downloadFile\<close> sends exactly two requests: the link, then the link with
  \<^verbatim>\<open>&confirm=<token>\<close> appended.  Nothing is assumed about the second response: whatever its
  content type, no third request is sent.
\<close>

theorem confirm_retry_once:
  assumes "axios_get w url = Inr response" and "is_html response"
    and "confirmMatch (data response) = Some confirmToken"
  shows "trace (snd (downloadFile w url s))
           = trace s @ [Get url, Get (url @ ''&confirm='' @ confirmToken)]"
  using assms
  by (auto simp: downloadFile_def http_get_def write_to_disk_def Let_def
           split: sum.splits write_outcome.splits prod.splits)

theorem confirm_retry_once_witness:
  "is_html (html_response ''<a href=/uc?export=download&confirm=XYZ123&id=F1>'')
   \<and> confirmMatch ''<a href=/uc?export=download&confirm=XYZ123&id=F1>'' = Some ''XYZ123''
   \<and> trace (snd (downloadFile world_confirm ''https://drive.google.com/uc?id=F1'' state0))
       = [Get ''https://drive.google.com/uc?id=F1'',
          Get ''https://drive.google.com/uc?id=F1&confirm=XYZ123'']"
proof -
  let ?r = "html_response ''<a href=/uc?export=download&confirm=XYZ123&id=F1>''"
  have g: "axios_get world_confirm ''https://drive.google.com/uc?id=F1'' = Inr ?r"
    by (simp add: world_defs)
  have h: "is_html ?r"
    by (simp add: model_defs world_defs)
  have m: "confirmMatch (data ?r) = Some ''XYZ123''"
    by (simp add: model_defs world_defs)
  from confirm_retry_once [OF g h m, of state0] h m show ?thesis
    by (simp add: state0_def html_response_def)
qed

text \<open>
  Claim C6.  When the first response is an HTML page whose text does not match
  \<^verbatim>\<open>confirm=<token>\<close>, \<^verbatim>\<open>downloadFile\<close> throws the confirmation-token error; the only request
  sent is the first one and the files on local storage are what they were.
\<close>

theorem no_token_fails:
  assumes "axios_get w url = Inr response" and "is_html response"
    and "confirmMatch (data response) = None"
  shows "downloadFile w url s
           = (Inl (Err ''Failed to extract confirmation token from HTML response.''),
              s\<lparr>trace := trace s @ [Get url]\<rparr>)"
  using assms by (simp add: downloadFile_def http_get_def)

theorem no_token_fails_witness:
  "confirmMatch ''<html>quota</html>'' = None
   \<and> downloadFile world_no_token ''https://drive.google.com/uc?id=F1'' state0
       = (Inl (Err ''Failed to extract confirmation token from HTML response.''),
          \<lparr>files = {}, trace = [Get ''https://drive.google.com/uc?id=F1'']\<rparr>)"
proof -
  let ?r = "html_response ''<html>quota</html>''"
  have g: "axios_get world_no_token ''https://drive.google.com/uc?id=F1'' = Inr ?r"
    by (simp add: world_defs)
  have h: "is_html ?r"
    by (simp add: model_defs world_defs)
  have m: "confirmMatch (data ?r) = None"
    by (simp add: model_defs world_defs)
  from no_token_fails [OF g h m, of state0] m show ?thesis
    by (simp add: state0_def html_response_def)
qed

section \<open>The gateway\<close>

lemma asserts_success_iff:
  "asserts_success d \<longleftrightarrow>
     (\<exists>kvs. d = JObj kvs \<and> (map_of kvs ''success'' = Some (JBool True)
                            \<or> map_of kvs ''result'' = Some (JBool True)))"
  by (cases d) (auto simp: asserts_success_def split: option.splits)

lemma sendErrorMessageViaWati_Inr:
  assumes "env_set w ''WATI_BASE_URL''" and "env_set w ''WATI_BEARER_TOKEN''"
  shows "fst (sendErrorMessageViaWati w phoneNumber message s) = Inr d \<longleftrightarrow>
           axios_post w (PostJson (env_val w ''WATI_BASE_URL'' @ ''/api/v1/sendSessionMessage/''
                                     @ phoneNumber) phoneNumber message) = Inr d
           \<and> asserts_success d"
  using assms by (auto simp: sendErrorMessageViaWati_def Let_def split: sum.splits)

lemma sendPdfViaWati_Inr:
  assumes "env_set w ''WATI_BASE_URL''" and "env_set w ''WATI_BEARER_TOKEN''"
    and "pdfUrl \<noteq> []"
    and "downloadFile w (process_pdfUrl pdfUrl) s = (Inr p, s1)"
  shows "fst (sendPdfViaWati w phoneNumber name pdfUrl s) = Inr d \<longleftrightarrow>
           axios_post w (PostForm (env_val w ''WATI_BASE_URL'' @ ''/api/v1/sendSessionFile/''
                                     @ phoneNumber) p (path_basename p) phoneNumber
                           (''Hello '' @ name @ '', here's your requested document.'')) = Inr d
           \<and> asserts_success d"
  using assms by (auto simp: sendPdfViaWati_def sendPdf_try_def Let_def split: sum.splits)

text \<open>
  Claim C8.  With the gateway configured, \<^verbatim>\<open>sendErrorMessageViaWati\<close> returns \<open>d\<close> exactly when
  the gateway answered its request with the body \<open>d\<close> and \<open>d\<close> asserts success; so does
  \<^verbatim>\<open>sendPdfViaWati\<close> once its download has given a file.  In every other case (another body, a
  transport failure, a timeout) the call throws.  A body asserts success exactly when it is an
  object whose \<^verbatim>\<open>success\<close> or \<^verbatim>\<open>result\<close> property is the boolean \<^verbatim>\<open>true\<close>.
\<close>

theorem gateway_success_iff:
  assumes "env_set w ''WATI_BASE_URL''" and "env_set w ''WATI_BEARER_TOKEN''"
  shows "(fst (sendErrorMessageViaWati w phoneNumber message s) = Inr d \<longleftrightarrow>
            axios_post w (PostJson (env_val w ''WATI_BASE_URL'' @ ''/api/v1/sendSessionMessage/''
                                      @ phoneNumber) phoneNumber message) = Inr d
            \<and> asserts_success d)
       \<and> (pdfUrl \<noteq> [] \<longrightarrow> downloadFile w (process_pdfUrl pdfUrl) s = (Inr p, s1) \<longrightarrow>
           (fst (sendPdfViaWati w phoneNumber name pdfUrl s) = Inr d \<longleftrightarrow>
              axios_post w (PostForm (env_val w ''WATI_BASE_URL'' @ ''/api/v1/sendSessionFile/''
                                        @ phoneNumber) p (path_basename p) phoneNumber
                              (''Hello '' @ name @ '', here's your requested document.'')) = Inr d
              \<and> asserts_success d))
       \<and> (asserts_success d \<longleftrightarrow>
            (\<exists>kvs. d = JObj kvs \<and> (map_of kvs ''success'' = Some (JBool True)
                                   \<or> map_of kvs ''result'' = Some (JBool True))))"
  using sendErrorMessageViaWati_Inr [OF assms] sendPdfViaWati_Inr [OF assms] asserts_success_iff
  by blast

theorem gateway_success_iff_witness:
  "env_set world_ok ''WATI_BASE_URL'' \<and> env_set world_ok ''WATI_BEARER_TOKEN''
   \<and> fst (sendErrorMessageViaWati world_ok ''12025550178'' ''hello'' state0)
       = Inr (JObj [(''result'', JBool True)])
   \<and> fst (sendPdfViaWati world_ok ''12025550178'' ''Jane'' ''https://drive.google.com/uc?id=F1''
            state0)
       = Inr (JObj [(''result'', JBool True)])
   \<and> (\<forall>d. fst (sendErrorMessageViaWati world_rejecting ''12025550178'' ''hello'' state0)
            \<noteq> Inr d)"
proof -
  have e: "env_set world_ok ''WATI_BASE_URL''" "env_set world_ok ''WATI_BEARER_TOKEN''"
    by (simp_all add: model_defs world_defs)
  have e': "env_set world_rejecting ''WATI_BASE_URL''" "env_set world_rejecting ''WATI_BEARER_TOKEN''"
    by (simp_all add: model_defs world_defs)
  have dl: "downloadFile world_ok (process_pdfUrl ''https://drive.google.com/uc?id=F1'') state0
              = (Inr ''/app/services/EN100.pdf'',
                 \<lparr>files = {''/app/services/EN100.pdf''},
                  trace = [Get ''https://drive.google.com/uc?export=download&id=F1'']\<rparr>)"
    by (simp add: model_defs world_defs)
  have ok: "asserts_success (JObj [(''result'', JBool True)])"
    by (simp add: asserts_success_def)
  have post: "\<And>r. axios_post world_ok r = Inr (JObj [(''result'', JBool True)])"
    by (simp add: world_defs)
  have rej: "\<And>r d. axios_post world_rejecting r = Inr d \<Longrightarrow> \<not> asserts_success d"
    by (auto simp: world_defs asserts_success_def)
  have a: "fst (sendErrorMessageViaWati world_ok ''12025550178'' ''hello'' state0)
             = Inr (JObj [(''result'', JBool True)])"
    using gateway_success_iff [OF e, where d = "JObj [(''result'', JBool True)]"] ok post
    by blast
  have b: "fst (sendPdfViaWati world_ok ''12025550178'' ''Jane''
                  ''https://drive.google.com/uc?id=F1'' state0)
             = Inr (JObj [(''result'', JBool True)])"
    using gateway_success_iff [OF e, where d = "JObj [(''result'', JBool True)]"
            and pdfUrl = "''https://drive.google.com/uc?id=F1''"] dl ok post
    by blast
  have c: "\<forall>d. fst (sendErrorMessageViaWati world_rejecting ''12025550178'' ''hello'' state0)
               \<noteq> Inr d"
    using gateway_success_iff [OF e'] rej by blast
  from e a b c show ?thesis by blast
qed

section \<open>The handler\<close>

lemma downloadFile_trace:
  "\<exists>gs. trace (snd (downloadFile w url s)) = trace s @ gs \<and> dispatches gs = 0"
  by (auto simp: downloadFile_def http_get_def write_to_disk_def Let_def dispatches_def
           split: sum.splits write_outcome.splits prod.splits option.splits)

lemma sendErrorMessageViaWati_trace:
  "\<exists>new. trace (snd (sendErrorMessageViaWati w phoneNumber message s)) = trace s @ new
         \<and> dispatches new \<le> 1"
  by (auto simp: sendErrorMessageViaWati_def Let_def dispatches_def split: sum.splits)

lemma trace_cleanup: "trace (cleanup p s) = trace s"
  by (simp add: cleanup_def split: option.splits)

lemma sendPdfViaWati_trace:
  "\<exists>new. trace (snd (sendPdfViaWati w phoneNumber name pdfUrl s)) = trace s @ new
         \<and> dispatches new \<le> 1"
proof -
  obtain gs where gs: "trace (snd (downloadFile w (process_pdfUrl pdfUrl) s)) = trace s @ gs"
    "dispatches gs = 0"
    using downloadFile_trace by blast
  then show ?thesis
    by (auto simp: sendPdfViaWati_def sendPdf_try_def Let_def trace_cleanup dispatches_def
             split: sum.splits prod.splits)
qed

lemma pipeline_state:
  "snd (pipeline w name phone s) = s
   \<or> (\<exists>message. snd (pipeline w name phone s) = snd (sendErrorMessageViaWati w phone message s))
   \<or> (\<exists>pdfUrl. snd (pipeline w name phone s) = snd (sendPdfViaWati w phone name pdfUrl s))"
  unfolding pipeline_def
  by (auto split: sum.splits option.splits prod.splits if_splits) (metis snd_conv)+

lemma receive_try_state:
  "snd (receive_try w body s) = s
   \<or> (\<exists>name phone. snd (receive_try w body s) = snd (pipeline w name phone s))"
  unfolding receive_try_def Let_def
  by (auto split: json.splits)

lemma snd_receive: "snd (receive w body s) = snd (receive_try w body s)"
  by (simp add: receive_def split: prod.splits sum.splits)

lemma receive_try_valid:
  assumes "req_name body = JStr nm" and "nm \<noteq> []"
    and "js_or (req_phoneNumber body) (req_phone_number body) = JStr phone"
    and "phoneRegex_test (strip_spaces phone)"
  shows "receive_try w body s = pipeline w (sanitize_name nm) (strip_spaces phone) s"
proof -
  have "phone \<noteq> []"
    using assms(4) by (auto simp: phoneRegex_test_def strip_spaces_def startsWith_def Let_def)
  with assms show ?thesis
    by (simp add: receive_try_def)
qed

lemma getEnrollmentNumber_None:
  "getEnrollmentNumber matchedRow = None \<longleftrightarrow>
     matchedRow ''enrollmentNumber'' = None \<or> matchedRow ''enrollmentNumber'' = Some []"
  by (auto simp: getEnrollmentNumber_def split: option.splits)

lemma fst_receive_Inl:
  "fst (receive_try w body s) = Inl e \<Longrightarrow>
   fst (receive w body s) =
     \<lparr>res_status = 500, res_success = False, res_message = ''Error processing webhook'',
      res_data = None, res_error = Some (error_text e)\<rparr>"
  by (cases "receive_try w body s") (auto simp: receive_def)

lemma pipeline_status:
  "fst (pipeline w name phone s) = Inr r \<Longrightarrow> res_status r = 404 \<or> res_status r = 200"
  unfolding pipeline_def
  by (auto split: sum.splits option.splits prod.splits if_splits)

text \<open>
  Claim C4.  The requests that one invocation of the handler adds to the trace hold at most
  one request to the gateway: a file post, or a message post, or neither, never both.
\<close>

theorem at_most_one_dispatch:
  "\<exists>new. trace (snd (receive w body s)) = trace s @ new \<and> dispatches new \<le> 1"
proof -
  have nil: "trace s = trace s @ [] \<and> dispatches [] \<le> 1"
    by (simp add: dispatches_def)
  from receive_try_state [of w body s] pipeline_state
  consider "snd (receive w body s) = s"
    | phone message where
        "snd (receive w body s) = snd (sendErrorMessageViaWati w phone message s)"
    | phone name pdfUrl where
        "snd (receive w body s) = snd (sendPdfViaWati w phone name pdfUrl s)"
    unfolding snd_receive by metis
  then show ?thesis
  proof cases
    case 1
    with nil show ?thesis by metis
  next
    case 2
    then show ?thesis using sendErrorMessageViaWati_trace by simp
  next
    case 3
    then show ?thesis using sendPdfViaWati_trace by simp
  qed
qed

theorem at_most_one_dispatch_witness:
  "dispatches (trace (snd (receive world_ok (body_jane ''+12025550178'') state0))) \<le> 1"
  using at_most_one_dispatch [of world_ok "body_jane ''+12025550178''" state0]
  by (simp add: state0_def)

text \<open>
  Claim C7.  When the request is valid, the directory lookup returns a row, and that row's
  \<^verbatim>\<open>enrollmentNumber\<close> column is absent or empty, the handler replies 404 with the message
  "Enrollment number not found for the matched phone number" and leaves the state as it
  was: no request to the gateway is added to the trace.
\<close>

theorem missing_enrollment_404:
  assumes "req_name body = JStr nm" and "nm \<noteq> []"
    and "js_or (req_phoneNumber body) (req_phone_number body) = JStr phone"
    and "phoneRegex_test (strip_spaces phone)"
    and "findPhoneNumberInSheet w (strip_spaces phone) = Inr (Some matchedRow)"
    and "matchedRow ''enrollmentNumber'' = None \<or> matchedRow ''enrollmentNumber'' = Some []"
  shows "receive w body s =
           (\<lparr>res_status = 404, res_success = False,
             res_message = ''Enrollment number not found for the matched phone number'',
             res_data = None, res_error = None\<rparr>, s)"
proof -
  have "getEnrollmentNumber matchedRow = None"
    using assms(6) by (simp add: getEnrollmentNumber_None)
  then have "pipeline w (sanitize_name nm) (strip_spaces phone) s =
           (Inr \<lparr>res_status = 404, res_success = False,
             res_message = ''Enrollment number not found for the matched phone number'',
             res_data = None, res_error = None\<rparr>, s)"
    using assms(5) by (simp add: pipeline_def)
  then show ?thesis
    using receive_try_valid [OF assms(1-4)] by (simp add: receive_def)
qed

theorem missing_enrollment_404_witness:
  "findPhoneNumberInSheet world_no_key (strip_spaces ''+1 202 555 0178'') = Inr (Some row_no_key)
   \<and> row_no_key ''enrollmentNumber'' = Some []
   \<and> receive world_no_key (body_jane ''+1 202 555 0178'') state0 =
       (\<lparr>res_status = 404, res_success = False,
         res_message = ''Enrollment number not found for the matched phone number'',
         res_data = None, res_error = None\<rparr>, state0)"
proof -
  have n: "req_name (body_jane ''+1 202 555 0178'') = JStr ''Jane''" "''Jane'' \<noteq> []"
    by (simp_all add: body_jane_def)
  have p: "js_or (req_phoneNumber (body_jane ''+1 202 555 0178''))
             (req_phone_number (body_jane ''+1 202 555 0178'')) = JStr ''+1 202 555 0178''"
    by (simp add: body_jane_def js_or_def)
  have v: "phoneRegex_test (strip_spaces ''+1 202 555 0178'')"
    by (simp add: model_defs)
  have f: "findPhoneNumberInSheet world_no_key (strip_spaces ''+1 202 555 0178'')
             = Inr (Some row_no_key)"
    by (simp add: model_defs world_defs)
  have k: "row_no_key ''enrollmentNumber'' = None \<or> row_no_key ''enrollmentNumber'' = Some []"
    by (simp add: row_no_key_def)
  from missing_enrollment_404 [OF n p v f k, of state0] f show ?thesis
    by (simp add: row_no_key_def)
qed

text \<open>
  Claim C2, as the code has it.  When the request is valid and a stage of the pipeline throws
  \<open>e\<close> (the directory lookup; the document lookup; the download or the file post inside
  \<^verbatim>\<open>sendPdfViaWati\<close>; the message post of a not-found branch), the handler replies 500 with the
  fixed message "Error processing webhook", and the reply's \<^verbatim>\<open>error\<close> field is the message of
  \<open>e\<close> itself ("Unknown error" when \<open>e\<close> is not an \<^verbatim>\<open>Error\<close>).
\<close>

theorem fatal_reply_carries_error_text:
  assumes "req_name body = JStr nm" and "nm \<noteq> []"
    and "js_or (req_phoneNumber body) (req_phone_number body) = JStr phone"
    and "phoneRegex_test (strip_spaces phone)"
    and "findPhoneNumberInSheet w (strip_spaces phone) = Inl e
       \<or> (findPhoneNumberInSheet w (strip_spaces phone) = Inr None
          \<and> fst (sendErrorMessageViaWati w (strip_spaces phone) errorMessage_phone s) = Inl e)
       \<or> (\<exists>matchedRow enrollmentNumber.
            findPhoneNumberInSheet w (strip_spaces phone) = Inr (Some matchedRow)
          \<and> getEnrollmentNumber matchedRow = Some enrollmentNumber
          \<and> (findPdfByEnrollmentNumber w enrollmentNumber = Inl e
             \<or> ((findPdfByEnrollmentNumber w enrollmentNumber = Inr None
                  \<or> findPdfByEnrollmentNumber w enrollmentNumber = Inr (Some []))
                \<and> fst (sendErrorMessageViaWati w (strip_spaces phone) errorMessage_document s)
                    = Inl e)
             \<or> (\<exists>pdfUrl. findPdfByEnrollmentNumber w enrollmentNumber = Inr (Some pdfUrl)
                \<and> pdfUrl \<noteq> []
                \<and> fst (sendPdfViaWati w (strip_spaces phone) (sanitize_name nm) pdfUrl s)
                    = Inl e)))"
  shows "fst (receive w body s) =
           \<lparr>res_status = 500, res_success = False, res_message = ''Error processing webhook'',
            res_data = None, res_error = Some (error_text e)\<rparr>"
proof -
  have "fst (pipeline w (sanitize_name nm) (strip_spaces phone) s) = Inl e"
    using assms(5) unfolding pipeline_def
    by (auto split: prod.splits sum.splits)
  then show ?thesis
    using receive_try_valid [OF assms(1-4)] fst_receive_Inl by simp
qed

theorem fatal_reply_carries_error_text_witness:
  "fst (sendPdfViaWati world_rejecting ''+12025550178'' ''Jane''
          ''https://drive.google.com/uc?id=F1'' state0)
     = Inl (Err ''Failed to send PDF via WATI API'')
   \<and> fst (receive world_rejecting (body_jane ''+12025550178'') state0) =
       \<lparr>res_status = 500, res_success = False, res_message = ''Error processing webhook'',
        res_data = None, res_error = Some ''Failed to send PDF via WATI API''\<rparr>"
proof -
  have n: "req_name (body_jane ''+12025550178'') = JStr ''Jane''" "''Jane'' \<noteq> []"
    by (simp_all add: body_jane_def)
  have p: "js_or (req_phoneNumber (body_jane ''+12025550178''))
             (req_phone_number (body_jane ''+12025550178'')) = JStr ''+12025550178''"
    by (simp add: body_jane_def js_or_def)
  have v: "phoneRegex_test (strip_spaces ''+12025550178'')"
    by (simp add: model_defs)
  have sp: "strip_spaces ''+12025550178'' = ''+12025550178''"
    and sn: "sanitize_name ''Jane'' = ''Jane''"
    by (simp_all add: model_defs)
  have f: "findPhoneNumberInSheet world_rejecting ''+12025550178'' = Inr (Some row_jane)"
    by (simp add: model_defs world_defs)
  have k: "getEnrollmentNumber row_jane = Some ''EN100''"
    by (simp add: model_defs world_defs)
  have l: "findPdfByEnrollmentNumber world_rejecting ''EN100''
             = Inr (Some ''https://drive.google.com/uc?id=F1'')"
    by (simp add: model_defs world_defs)
  have d: "fst (sendPdfViaWati world_rejecting ''+12025550178'' ''Jane''
                  ''https://drive.google.com/uc?id=F1'' state0)
             = Inl (Err ''Failed to send PDF via WATI API'')"
    by (simp add: model_defs world_defs)
  have "fst (receive world_rejecting (body_jane ''+12025550178'') state0) =
          \<lparr>res_status = 500, res_success = False, res_message = ''Error processing webhook'',
           res_data = None,
           res_error = Some (error_text (Err ''Failed to send PDF via WATI API''))\<rparr>"
    by (rule fatal_reply_carries_error_text [OF n p v]) (use sp sn f k l d in auto)
  with d show ?thesis by (simp add: error_text_def)
qed

text \<open>
  The claim as stated (the body does not echo the underlying error's text) fails: with a
  spreadsheet that has no sheet, the lookup throws "No sheet found in the Google
  Spreadsheet" and the reply's \<^verbatim>\<open>error\<close> field is that very text.
\<close>

theorem fatal_reply_echoes_lookup_error:
  "findPhoneNumberInSheet world_no_sheet ''+12025550178''
     = Inl (Err ''No sheet found in the Google Spreadsheet'')
   \<and> fst (receive world_no_sheet (body_jane ''+12025550178'') state0) =
       \<lparr>res_status = 500, res_success = False, res_message = ''Error processing webhook'',
        res_data = None, res_error = Some ''No sheet found in the Google Spreadsheet''\<rparr>"
  by (simp add: model_defs world_defs)

text \<open>
  Claim C1, as the code has it.  The phone is checked against \<^verbatim>\<open>^\+?[0-9]{10,15}$\<close> after
  whitespace alone is removed.  A request with a name and a phone that fails this check is
  answered 400 "Invalid phone number format" with the state untouched.  A request that passes
  it, whose phone the directory matches to a row with an enrollment number, whose document the
  file store locates and whose dispatch returns \<open>d\<close>, is answered 200 with \<open>d\<close> as data.
\<close>

theorem valid_request_delivers:
  assumes "req_name body = JStr nm" and "nm \<noteq> []"
    and "js_or (req_phoneNumber body) (req_phone_number body) = JStr phone" and "phone \<noteq> []"
  shows "(\<not> phoneRegex_test (strip_spaces phone) \<longrightarrow>
            receive w body s =
              (\<lparr>res_status = 400, res_success = False,
                res_message = ''Invalid phone number format'',
                res_data = None, res_error = None\<rparr>, s))
       \<and> (phoneRegex_test (strip_spaces phone) \<longrightarrow>
          findPhoneNumberInSheet w (strip_spaces phone) = Inr (Some matchedRow) \<longrightarrow>
          getEnrollmentNumber matchedRow = Some enrollmentNumber \<longrightarrow>
          findPdfByEnrollmentNumber w enrollmentNumber = Inr (Some pdfUrl) \<longrightarrow>
          pdfUrl \<noteq> [] \<longrightarrow>
          sendPdfViaWati w (strip_spaces phone) (sanitize_name nm) pdfUrl s = (Inr d, s1) \<longrightarrow>
            receive w body s =
              (\<lparr>res_status = 200, res_success = True, res_message = ''PDF sent successfully'',
                res_data = Some d, res_error = None\<rparr>, s1))"
proof (intro conjI impI)
  assume "\<not> phoneRegex_test (strip_spaces phone)"
  with assms show "receive w body s =
      (\<lparr>res_status = 400, res_success = False, res_message = ''Invalid phone number format'',
        res_data = None, res_error = None\<rparr>, s)"
    by (simp add: receive_def receive_try_def)
next
  assume ok: "phoneRegex_test (strip_spaces phone)"
    and "findPhoneNumberInSheet w (strip_spaces phone) = Inr (Some matchedRow)"
    and "getEnrollmentNumber matchedRow = Some enrollmentNumber"
    and "findPdfByEnrollmentNumber w enrollmentNumber = Inr (Some pdfUrl)"
    and "pdfUrl \<noteq> []"
    and "sendPdfViaWati w (strip_spaces phone) (sanitize_name nm) pdfUrl s = (Inr d, s1)"
  then have "pipeline w (sanitize_name nm) (strip_spaces phone) s =
      (Inr \<lparr>res_status = 200, res_success = True, res_message = ''PDF sent successfully'',
        res_data = Some d, res_error = None\<rparr>, s1)"
    by (simp add: pipeline_def)
  then show "receive w body s =
      (\<lparr>res_status = 200, res_success = True, res_message = ''PDF sent successfully'',
        res_data = Some d, res_error = None\<rparr>, s1)"
    using receive_try_valid [OF assms(1-3) ok] by (simp add: receive_def)
qed

theorem valid_request_delivers_witness:
  "phoneRegex_test (strip_spaces ''+1 202 555 0178'')
   \<and> fst (receive world_ok (body_jane ''+1 202 555 0178'') state0) =
       \<lparr>res_status = 200, res_success = True, res_message = ''PDF sent successfully'',
        res_data = Some (JObj [(''result'', JBool True)]), res_error = None\<rparr>"
proof -
  have n: "req_name (body_jane ''+1 202 555 0178'') = JStr ''Jane''" "''Jane'' \<noteq> []"
    by (simp_all add: body_jane_def)
  have p: "js_or (req_phoneNumber (body_jane ''+1 202 555 0178''))
             (req_phone_number (body_jane ''+1 202 555 0178'')) = JStr ''+1 202 555 0178''"
    "''+1 202 555 0178'' \<noteq> []"
    by (simp_all add: body_jane_def js_or_def)
  have v: "phoneRegex_test (strip_spaces ''+1 202 555 0178'')"
    by (simp add: model_defs)
  have sp: "strip_spaces ''+1 202 555 0178'' = ''+12025550178''"
    and sn: "sanitize_name ''Jane'' = ''Jane''"
    by (simp_all add: model_defs)
  have f: "findPhoneNumberInSheet world_ok ''+12025550178'' = Inr (Some row_jane)"
    by (simp add: model_defs world_defs)
  have k: "getEnrollmentNumber row_jane = Some ''EN100''"
    by (simp add: model_defs world_defs)
  have l: "findPdfByEnrollmentNumber world_ok ''EN100''
             = Inr (Some ''https://drive.google.com/uc?id=F1'')"
    by (simp add: model_defs world_defs)
  obtain s1 where d: "sendPdfViaWati world_ok ''+12025550178'' ''Jane''
                  ''https://drive.google.com/uc?id=F1'' state0
             = (Inr (JObj [(''result'', JBool True)]), s1)"
    by (simp add: model_defs world_defs)
  from valid_request_delivers [OF n p, of world_ok state0 row_jane "''EN100''"
         "''https://drive.google.com/uc?id=F1''" "JObj [(''result'', JBool True)]" s1]
    v f k l d sp sn
  show ?thesis by simp
qed

text \<open>
  The claim as stated fails at its own input: \<^verbatim>\<open>+1 202-555-0178\<close> keeps its hyphens when
  whitespace is removed, so the handler answers 400, although the directory matches the phone
  to Jane's row with key \<^verbatim>\<open>EN100\<close>, the document is located and the gateway would accept.
\<close>

theorem hyphenated_phone_rejected:
  "findPhoneNumberInSheet world_ok ''+1 202-555-0178'' = Inr (Some row_jane)
   \<and> getEnrollmentNumber row_jane = Some ''EN100''
   \<and> findPdfByEnrollmentNumber world_ok ''EN100''
       = Inr (Some ''https://drive.google.com/uc?id=F1'')
   \<and> fst (sendPdfViaWati world_ok ''+1 202-555-0178'' ''Jane''
            ''https://drive.google.com/uc?id=F1'' state0)
       = Inr (JObj [(''result'', JBool True)])
   \<and> receive world_ok (body_jane ''+1 202-555-0178'') state0 =
       (\<lparr>res_status = 400, res_success = False, res_message = ''Invalid phone number format'',
         res_data = None, res_error = None\<rparr>, state0)"
  by (simp add: model_defs world_defs)

text \<open>
  Claim C10.  The phone key is chosen by truthiness.  When \<^verbatim>\<open>phoneNumber\<close> is truthy it is the
  one used: the answer does not depend on \<^verbatim>\<open>phone_number\<close>, a valid \<^verbatim>\<open>phoneNumber\<close> is run
  through the pipeline and an invalid one is answered 400 with no fallback.  When
  \<^verbatim>\<open>phoneNumber\<close> is falsy (absent, empty, null, zero, false), the handler answers exactly as
  for the request whose \<^verbatim>\<open>phoneNumber\<close> is the value of \<^verbatim>\<open>phone_number\<close>; with a name and a valid
  \<^verbatim>\<open>phone_number\<close> it runs the pipeline on that number, and the reply is not 400.
\<close>

theorem phone_key_by_truthiness:
  "(truthy (req_phoneNumber body) \<longrightarrow>
      receive w body s = receive w (body\<lparr>req_phone_number := other\<rparr>) s
      \<and> (req_name body = JStr nm \<longrightarrow> nm \<noteq> [] \<longrightarrow> req_phoneNumber body = JStr phone \<longrightarrow>
           (phoneRegex_test (strip_spaces phone) \<longrightarrow>
              receive_try w body s = pipeline w (sanitize_name nm) (strip_spaces phone) s)
         \<and> (\<not> phoneRegex_test (strip_spaces phone) \<longrightarrow>
              receive w body s =
                (\<lparr>res_status = 400, res_success = False,
                  res_message = ''Invalid phone number format'',
                  res_data = None, res_error = None\<rparr>, s))))
   \<and> (\<not> truthy (req_phoneNumber body) \<longrightarrow>
      receive w body s = receive w (body\<lparr>req_phoneNumber := req_phone_number body\<rparr>) s
      \<and> (req_name body = JStr nm \<longrightarrow> nm \<noteq> [] \<longrightarrow> req_phone_number body = JStr phone \<longrightarrow>
          phoneRegex_test (strip_spaces phone) \<longrightarrow>
            receive_try w body s = pipeline w (sanitize_name nm) (strip_spaces phone) s
            \<and> res_status (fst (receive w body s)) \<noteq> 400))"
proof (intro conjI impI)
  assume t: "truthy (req_phoneNumber body)"
  then show "receive w body s = receive w (body\<lparr>req_phone_number := other\<rparr>) s"
    by (simp add: receive_def receive_try_def js_or_def)
  {
    assume a: "req_name body = JStr nm" "nm \<noteq> []" "req_phoneNumber body = JStr phone"
    have j: "js_or (req_phoneNumber body) (req_phone_number body) = JStr phone"
      using t a(3) by (simp add: js_or_def)
    have ne: "phone \<noteq> []"
      using t a(3) by simp
    {
      assume "phoneRegex_test (strip_spaces phone)"
      then show "receive_try w body s = pipeline w (sanitize_name nm) (strip_spaces phone) s"
        by (rule receive_try_valid [OF a(1,2) j])
    }
    {
      assume "\<not> phoneRegex_test (strip_spaces phone)"
      with a j ne show "receive w body s =
          (\<lparr>res_status = 400, res_success = False,
            res_message = ''Invalid phone number format'',
            res_data = None, res_error = None\<rparr>, s)"
        by (simp add: receive_def receive_try_def)
    }
  }
next
  assume f: "\<not> truthy (req_phoneNumber body)"
  then show "receive w body s = receive w (body\<lparr>req_phoneNumber := req_phone_number body\<rparr>) s"
    by (simp add: receive_def receive_try_def js_or_def)
  {
    assume a: "req_name body = JStr nm" "nm \<noteq> []" "req_phone_number body = JStr phone"
      "phoneRegex_test (strip_spaces phone)"
    have j: "js_or (req_phoneNumber body) (req_phone_number body) = JStr phone"
      using f a(3) by (simp add: js_or_def)
    show t: "receive_try w body s = pipeline w (sanitize_name nm) (strip_spaces phone) s"
      by (rule receive_try_valid [OF a(1,2) j a(4)])
    show "res_status (fst (receive w body s)) \<noteq> 400"
    proof (cases "fst (receive_try w body s)")
      case (Inl e)
      then show ?thesis using fst_receive_Inl by simp
    next
      case (Inr r)
      with t have "res_status r = 404 \<or> res_status r = 200"
        using pipeline_status by simp
      moreover have "fst (receive w body s) = r"
        using Inr by (cases "receive_try w body s") (simp add: receive_def)
      ultimately show ?thesis by auto
    qed
  }
qed

theorem phone_key_by_truthiness_witness:
  "truthy (req_phoneNumber body_both_keys)
   \<and> receive_try world_ok body_both_keys state0
       = pipeline world_ok ''Jane'' ''+12025550178'' state0
   \<and> receive world_ok body_both_keys state0
       = receive world_ok (body_both_keys\<lparr>req_phone_number := JUndefined\<rparr>) state0
   \<and> res_status (fst (receive world_ok body_both_keys state0)) = 200
   \<and> \<not> truthy (req_phoneNumber body_empty_key)
   \<and> receive_try world_ok body_empty_key state0 = pipeline world_ok ''Jane'' ''12025550178'' state0
   \<and> res_status (fst (receive world_ok body_empty_key state0)) = 200"
proof -
  have a: "\<not> truthy (req_phoneNumber body_empty_key)"
    by (simp add: body_empty_key_def)
  have b: "req_name body_empty_key = JStr ''Jane''" "''Jane'' \<noteq> []"
    "req_phone_number body_empty_key = JStr ''12025550178''"
    by (simp_all add: body_empty_key_def)
  have v: "phoneRegex_test (strip_spaces ''12025550178'')"
    by (simp add: model_defs)
  have sp: "strip_spaces ''12025550178'' = ''12025550178''"
    and sn: "sanitize_name ''Jane'' = ''Jane''"
    by (simp_all add: model_defs)
  have r: "res_status (fst (receive world_ok body_empty_key state0)) = 200"
    by (simp add: model_defs world_defs)
  from phone_key_by_truthiness [of body_empty_key world_ok state0 _ "''Jane''" "''12025550178''"]
    a b v sp sn
  have e: "receive_try world_ok body_empty_key state0
          = pipeline world_ok ''Jane'' ''12025550178'' state0"
    by simp
  have a': "truthy (req_phoneNumber body_both_keys)"
    by (simp add: body_both_keys_def)
  have b': "req_name body_both_keys = JStr ''Jane''"
    "req_phoneNumber body_both_keys = JStr ''+12025550178''"
    by (simp_all add: body_both_keys_def)
  have v': "phoneRegex_test (strip_spaces ''+12025550178'')"
    by (simp add: model_defs)
  have sp': "strip_spaces ''+12025550178'' = ''+12025550178''"
    by (simp add: model_defs)
  have r': "res_status (fst (receive world_ok body_both_keys state0)) = 200"
    by (simp add: model_defs world_defs)
  from phone_key_by_truthiness
         [of body_both_keys world_ok state0 JUndefined "''Jane''" "''+12025550178''"]
    a' b' b(2) v' sp' sn
  have e': "receive_try world_ok body_both_keys state0
              = pipeline world_ok ''Jane'' ''+12025550178'' state0"
    and i': "receive world_ok body_both_keys state0
              = receive world_ok (body_both_keys\<lparr>req_phone_number := JUndefined\<rparr>) state0"
    by simp_all
  from a r e a' r' e' i' show ?thesis by simp
qed

section \<open>The downloaded file\<close>

lemma downloadFile_path_not_Nil: "downloadFile w url s = (Inr p, s1) \<Longrightarrow> p \<noteq> []"
  by (auto simp: downloadFile_def http_get_def write_to_disk_def path_join_def Let_def
           split: sum.splits write_outcome.splits prod.splits option.splits if_splits)

text \<open>Once \<^verbatim>\<open>downloadFile\<close> has returned a path, the \<^verbatim>\<open>finally\<close> block removes that file whatever
  the gateway does.\<close>

lemma downloaded_file_removed:
  assumes "env_set w ''WATI_BASE_URL''" and "env_set w ''WATI_BEARER_TOKEN''"
    and "pdfUrl \<noteq> []"
    and "downloadFile w (process_pdfUrl pdfUrl) s = (Inr p, s1)"
  shows "p \<notin> files (snd (sendPdfViaWati w phoneNumber name pdfUrl s))"
  using assms downloadFile_path_not_Nil [OF assms(4)]
  by (auto simp: sendPdfViaWati_def sendPdf_try_def cleanup_def Let_def
           split: sum.splits if_splits)

text \<open>
  Claim C3 (the document's local file is absent when the invocation ends, on every exit
  path) is not met when the write stream fails after it has created the file: \<^verbatim>\<open>downloadFile\<close>
  throws before \<^verbatim>\<open>downloadedFilePath\<close> is assigned, the \<^verbatim>\<open>finally\<close> block removes nothing, and
  the invocation ends with status 500 and the partial file still on storage.
\<close>

theorem partial_file_left_behind:
  "files state0 = {}
   \<and> fst (receive world_disk_full (body_jane ''+12025550178'') state0) =
       \<lparr>res_status = 500, res_success = False, res_message = ''Error processing webhook'',
        res_data = None, res_error = Some ''ENOSPC: no space left on device, write''\<rparr>
   \<and> files (snd (receive world_disk_full (body_jane ''+12025550178'') state0))
       = {''/app/services/EN100.pdf''}"
  by (simp add: model_defs world_defs)

end
